theory Spec2Isabelle
  imports
    Main
    "HOL-Library.Char_ord"
    "HOL-Library.List_Lexorder"
    "HOL-Library.Product_Lexorder"
    "HOL-Library.Multiset"
    "HOL-Library.Word"
begin

section \<open>Data model of the sync service\<close>

text \<open>
  The development embeds \<^verbatim>\<open>services/syncService.js\<close> (and the lookup
  \<^verbatim>\<open>getTaskByIdIncludingDeleted\<close> of \<^verbatim>\<open>services/taskService.js\<close>) over the SQLite
  schema of \<^verbatim>\<open>db/db.js\<close>.

  Timestamps are the ISO-8601 texts written by \<^verbatim>\<open>new Date().toISOString()\<close>. They are
  modelled by the number of milliseconds they denote: for that fixed-width format the text
  order used by \<^verbatim>\<open>ORDER BY\<close> and the numeric order of \<^verbatim>\<open>Date.getTime()\<close> agree.
  Texts that are not dates (\<^verbatim>\<open>Invalid Date\<close>) are outside the model. Strings are
  sequences of 8-bit characters.
\<close>

type_synonym timestamp = int

text \<open>\<^verbatim>\<open>SYNC_STATES = ['pending', 'in-progress', 'synced', 'error', 'failed']\<close>\<close>

datatype sync_state = St_pending | St_in_progress | St_synced | St_error | St_failed

text \<open>A row of table \<^verbatim>\<open>tasks\<close> (primary key \<open>t_id\<close>; title, timestamps and flags NOT NULL).\<close>

record task =
  t_id :: string
  t_user_id :: string
  t_title :: string
  t_description :: string
  t_completed :: bool
  t_created_at :: timestamp
  t_updated_at :: timestamp
  t_is_deleted :: bool
  t_sync_status :: sync_state
  t_server_id :: "string option"
  t_last_synced_at :: "timestamp option"

text \<open>
  The parsed payload of a queued operation: a JSON object holding some of the task's
  fields. \<open>None\<close> is an absent key (\<^verbatim>\<open>undefined\<close> when read).
\<close>

record payload =
  p_title :: "string option"
  p_description :: "string option"
  p_completed :: "bool option"
  p_created_at :: "timestamp option"
  p_updated_at :: "timestamp option"
  p_is_deleted :: "bool option"

definition empty_payload :: payload where
  "empty_payload = \<lparr>p_title = None, p_description = None, p_completed = None,
     p_created_at = None, p_updated_at = None, p_is_deleted = None\<rparr>"

text \<open>A row of table \<^verbatim>\<open>sync_queue\<close> (primary key \<open>q_id\<close>); \<open>q_data\<close> is the JSON text.\<close>

record qrow =
  q_id :: string
  q_user_id :: string
  q_task_id :: string
  q_operation :: string
  q_data :: string
  q_retry_count :: nat
  q_error_message :: "string option"
  q_created_at :: timestamp
  q_operation_timestamp :: timestamp

text \<open>A row of table \<^verbatim>\<open>dead_letter_queue\<close> (primary key \<open>d_id\<close>).\<close>

record dlrow =
  d_id :: string
  d_user_id :: string
  d_task_id :: string
  d_operation :: string
  d_data :: string
  d_retry_count :: nat
  d_error_message :: string
  d_original_created_at :: timestamp
  d_failed_at :: timestamp

text \<open>A row of table \<^verbatim>\<open>sync_logs\<close> (primary key \<open>l_id\<close>).\<close>

record sync_log =
  l_id :: string
  l_user_id :: string
  l_change_count :: nat
  l_processed :: nat
  l_failed :: nat
  l_status :: string
  l_created_at :: timestamp

text \<open>An element of the \<^verbatim>\<open>changes\<close> array of a sync request.\<close>

record change =
  c_operation :: string
  c_local_id :: "string option"
  c_server_id :: "string option"
  c_data :: "payload option"

text \<open>
  What the service takes from outside the repository: the wall clock and the UUID
  generator (the value returned by their \<open>n\<close>-th call), the JSON codec on payload
  objects (\<^verbatim>\<open>JSON.parse\<close> gives \<open>None\<close> where it throws), the MD5 digest, the
  collation \<^verbatim>\<open>String.prototype.localeCompare\<close>, and the configured batch size.
\<close>

record env =
  now_at :: "nat \<Rightarrow> timestamp"
  uuid_at :: "nat \<Rightarrow> string"
  JSON_parse :: "string \<Rightarrow> payload option"
  JSON_stringify :: "payload \<Rightarrow> string"
  md5 :: "string \<Rightarrow> 128 word"
  localeCompare :: "string \<Rightarrow> string \<Rightarrow> int"
  SYNC_BATCH_SIZE :: nat

text \<open>The database, with the number of clock readings and UUID draws made so far.\<close>

record world =
  tasks :: "task list"
  sync_queue :: "qrow list"
  dead_letter_queue :: "dlrow list"
  sync_logs :: "sync_log list"
  clock_reads :: nat
  uuid_draws :: nat

text \<open>Exceptions: the \<^verbatim>\<open>Error\<close>s thrown by the services and SQLite's constraint failures.\<close>

datatype error =
    InvalidOperation string
  | UnknownOperation string
  | TaskIdRequired
  | UserIdRequired
  | NotNullConstraint string
  | UniqueConstraint string

fun message :: "error \<Rightarrow> string" where
  "message (InvalidOperation k) = ''Invalid operation: '' @ k"
| "message (UnknownOperation k) = ''Unknown operation: '' @ k"
| "message TaskIdRequired = ''Task ID is required''"
| "message UserIdRequired = ''User ID is required''"
| "message (NotNullConstraint c) = ''SQLITE_CONSTRAINT: NOT NULL constraint failed: '' @ c"
| "message (UniqueConstraint c) = ''SQLITE_CONSTRAINT: UNIQUE constraint failed: '' @ c"

definition new_Date :: "env \<Rightarrow> world \<Rightarrow> timestamp \<times> world" where
  "new_Date E s = (now_at E (clock_reads s), s\<lparr>clock_reads := Suc (clock_reads s)\<rparr>)"

definition uuidv4 :: "env \<Rightarrow> world \<Rightarrow> string \<times> world" where
  "uuidv4 E s = (uuid_at E (uuid_draws s), s\<lparr>uuid_draws := Suc (uuid_draws s)\<rparr>)"

definition MAX_RETRIES :: nat where
  "MAX_RETRIES = 3"

text \<open>\<^verbatim>\<open>CONFLICT_PRIORITY = { 'delete': 3, 'update': 2, 'create': 1 }\<close>; other keys are undefined.\<close>

definition CONFLICT_PRIORITY :: "string \<Rightarrow> nat option" where
  "CONFLICT_PRIORITY k =
     (if k = ''delete'' then Some 3
      else if k = ''update'' then Some 2
      else if k = ''create'' then Some 1
      else None)"

section \<open>Conflict resolution\<close>

text \<open>
  \<^verbatim>\<open>resolveConflict\<close> returns one of its two arguments and the caller tests the result
  with \<^verbatim>\<open>resolvedTask === serverTask\<close>, an identity test on two distinct objects. The
  model returns which of the two was chosen.
\<close>

datatype winner = LocalTask | ServerTask

definition resolveConflict :: "task \<Rightarrow> task \<Rightarrow> string \<Rightarrow> winner" where
  "resolveConflict localTask serverTask localOperation =
     (let localUpdated = t_updated_at localTask;
          serverUpdated = t_updated_at serverTask
      in if localUpdated = serverUpdated then
           (let localPriority =
                  (case CONFLICT_PRIORITY localOperation of
                     None \<Rightarrow> 1
                   | Some p \<Rightarrow> if p = 0 then 1 else p);
                serverPriority =
                  (case CONFLICT_PRIORITY ''update'' of None \<Rightarrow> 0 | Some p \<Rightarrow> p)
            in if localPriority \<ge> serverPriority then LocalTask else ServerTask)
         else if localUpdated \<ge> serverUpdated then LocalTask else ServerTask)"

section \<open>Record store and queue accesses\<close>

text \<open>\<^verbatim>\<open>getTaskByIdIncludingDeleted\<close> of the task service.\<close>

definition getTaskByIdIncludingDeleted :: "string \<Rightarrow> string \<Rightarrow> world \<Rightarrow> error + task option" where
  "getTaskByIdIncludingDeleted ident userId s =
     (if ident = [] then Inl TaskIdRequired
      else if userId = [] then Inl UserIdRequired
      else Inr (find (\<lambda>t. t_id t = ident \<and> t_user_id t = userId) (tasks s)))"

text \<open>\<^verbatim>\<open>JSON.parse\<close> guarded by a catch-all that yields the empty object.\<close>

definition safeParseJSON :: "env \<Rightarrow> string \<Rightarrow> payload" where
  "safeParseJSON E s = (case JSON_parse E s of None \<Rightarrow> empty_payload | Some p \<Rightarrow> p)"

text \<open>
  \<^verbatim>\<open>updateSyncStatus(taskId, status, userId, serverData)\<close>; the last argument is
  \<^verbatim>\<open>serverData.server_id\<close>. With status \<^verbatim>\<open>synced\<close> the queue loses every row of the
  task: \<^verbatim>\<open>DELETE FROM sync_queue WHERE task_id = ? AND user_id = ?\<close>.
\<close>

definition updateSyncStatus ::
  "env \<Rightarrow> string \<Rightarrow> sync_state \<Rightarrow> string \<Rightarrow> string option \<Rightarrow> world \<Rightarrow> world" where
  "updateSyncStatus E taskId status userId server_id s =
     (let (now, s1) = new_Date E s;
          serverId = (case server_id of None \<Rightarrow> taskId
                      | Some x \<Rightarrow> if x = [] then taskId else x);
          s2 = s1\<lparr>tasks :=
                 map (\<lambda>t. if t_id t = taskId \<and> t_user_id t = userId
                          then t\<lparr>t_sync_status := status, t_last_synced_at := Some now,
                                 t_server_id := Some serverId\<rparr>
                          else t) (tasks s1)\<rparr>
      in if status = St_synced
         then s2\<lparr>sync_queue :=
                filter (\<lambda>r. \<not> (q_task_id r = taskId \<and> q_user_id r = userId)) (sync_queue s2)\<rparr>
         else s2)"

text \<open>
  \<^verbatim>\<open>addToSyncQueue(taskId, operation, data, userId, operationTimestamp = null)\<close> of the sync
  service. The insert fails on a NULL task id and on a duplicate primary key.
\<close>

definition addToSyncQueue ::
  "env \<Rightarrow> string option \<Rightarrow> string \<Rightarrow> payload option \<Rightarrow> string \<Rightarrow> timestamp option
     \<Rightarrow> world \<Rightarrow> (error + unit) \<times> world" where
  "addToSyncQueue E taskId operation data userId operationTimestamp s =
     (let (queueId, s1) = uuidv4 E s;
          (created_at, s2) = new_Date E s1;
          operation_timestamp =
            (case operationTimestamp of None \<Rightarrow> created_at | Some t \<Rightarrow> t);
          serializedData =
            JSON_stringify E (case data of None \<Rightarrow> empty_payload | Some d \<Rightarrow> d)
      in case taskId of
           None \<Rightarrow> (Inl (NotNullConstraint ''sync_queue.task_id''), s2)
         | Some tid \<Rightarrow>
             if queueId \<in> set (map q_id (sync_queue s2))
             then (Inl (UniqueConstraint ''sync_queue.id''), s2)
             else (Inr (),
                   s2\<lparr>sync_queue := sync_queue s2 @
                      [\<lparr>q_id = queueId, q_user_id = userId, q_task_id = tid,
                        q_operation = operation, q_data = serializedData,
                        q_retry_count = 0, q_error_message = None,
                        q_created_at = created_at,
                        q_operation_timestamp = operation_timestamp\<rparr>]\<rparr>))"

section \<open>Applying one operation\<close>

text \<open>
  What \<^verbatim>\<open>processItem\<close> returns: \<^verbatim>\<open>mapping\<close> as (local id, server id),
  \<^verbatim>\<open>conflict\<close> as (local id, server task), and the \<^verbatim>\<open>server_id\<close> of
  \<^verbatim>\<open>serverData\<close>, the only part of it that the caller reads.
\<close>

record item_result =
  r_mapping :: "(string \<times> string) option"
  r_conflict :: "(string \<times> task) option"
  r_server_id :: "string option"

text \<open>The branch \<^verbatim>\<open>item.operation === 'create'\<close>, entered with the time \<open>now\<close> just read.\<close>

definition processItem_create ::
  "env \<Rightarrow> qrow \<Rightarrow> payload \<Rightarrow> string \<Rightarrow> timestamp \<Rightarrow> world
     \<Rightarrow> (error + item_result) \<times> world" where
  "processItem_create E item data userId now s =
     (let (ident, s1) = uuidv4 E s
      in case p_title data of
           None \<Rightarrow> (Inl (NotNullConstraint ''tasks.title''), s1)
         | Some title \<Rightarrow>
             if ident \<in> set (map t_id (tasks s1))
             then (Inl (UniqueConstraint ''tasks.id''), s1)
             else
               (let taskData =
                  \<lparr>t_id = ident, t_user_id = userId, t_title = title,
                   t_description = (case p_description data of None \<Rightarrow> [] | Some d \<Rightarrow> d),
                   t_completed = (case p_completed data of None \<Rightarrow> False | Some c \<Rightarrow> c),
                   t_created_at = (case p_created_at data of None \<Rightarrow> now | Some c \<Rightarrow> c),
                   t_updated_at = (case p_updated_at data of None \<Rightarrow> now | Some u \<Rightarrow> u),
                   t_is_deleted = False, t_sync_status = St_synced,
                   t_server_id = Some ident, t_last_synced_at = Some now\<rparr>
                in (Inr \<lparr>r_mapping = Some (q_task_id item, ident), r_conflict = None,
                         r_server_id = Some ident\<rparr>,
                    s1\<lparr>tasks := tasks s1 @ [taskData]\<rparr>)))"

text \<open>\<^verbatim>\<open>localTask = { ...serverTask, ...data, id: item.task_id }\<close>\<close>

definition localTask_of :: "task \<Rightarrow> payload \<Rightarrow> string \<Rightarrow> task" where
  "localTask_of serverTask data ident =
     serverTask\<lparr>
       t_title := (case p_title data of None \<Rightarrow> t_title serverTask | Some x \<Rightarrow> x),
       t_description :=
         (case p_description data of None \<Rightarrow> t_description serverTask | Some x \<Rightarrow> x),
       t_completed := (case p_completed data of None \<Rightarrow> t_completed serverTask | Some x \<Rightarrow> x),
       t_created_at :=
         (case p_created_at data of None \<Rightarrow> t_created_at serverTask | Some x \<Rightarrow> x),
       t_updated_at :=
         (case p_updated_at data of None \<Rightarrow> t_updated_at serverTask | Some x \<Rightarrow> x),
       t_is_deleted :=
         (case p_is_deleted data of None \<Rightarrow> t_is_deleted serverTask | Some x \<Rightarrow> x),
       t_id := ident\<rparr>"

text \<open>
  The merge and \<^verbatim>\<open>UPDATE tasks SET title, description, completed, is_deleted, updated_at,
  sync_status, last_synced_at WHERE id = ? AND user_id = ?\<close>.
\<close>

definition merge_row :: "string \<Rightarrow> payload \<Rightarrow> timestamp \<Rightarrow> task \<Rightarrow> task \<Rightarrow> task" where
  "merge_row operation data now serverTask t =
     t\<lparr>t_title := (case p_title data of None \<Rightarrow> t_title serverTask | Some x \<Rightarrow> x),
       t_description :=
         (case p_description data of None \<Rightarrow> t_description serverTask | Some x \<Rightarrow> x),
       t_completed := (case p_completed data of None \<Rightarrow> t_completed serverTask | Some x \<Rightarrow> x),
       t_is_deleted :=
         (if operation = ''delete'' then True
          else (case p_is_deleted data of None \<Rightarrow> t_is_deleted serverTask | Some x \<Rightarrow> x)),
       t_updated_at := now,
       t_sync_status := St_synced,
       t_last_synced_at := Some now\<rparr>"

definition processItem ::
  "env \<Rightarrow> qrow \<Rightarrow> payload \<Rightarrow> string \<Rightarrow> world \<Rightarrow> (error + item_result) \<times> world" where
  "processItem E item data userId s =
     (let (now, s1) = new_Date E s
      in if q_operation item = ''create'' then processItem_create E item data userId now s1
         else if q_operation item = ''update'' \<or> q_operation item = ''delete'' then
           (case getTaskByIdIncludingDeleted (q_task_id item) userId s1 of
              Inl e \<Rightarrow> (Inl e, s1)
            | Inr None \<Rightarrow>
                if q_operation item = ''delete''
                then (Inr \<lparr>r_mapping = None, r_conflict = None, r_server_id = None\<rparr>, s1)
                else (let (now', s2) = new_Date E s1
                      in processItem_create E (item\<lparr>q_operation := ''create''\<rparr>)
                           data userId now' s2)
            | Inr (Some serverTask) \<Rightarrow>
                (let localTask = localTask_of serverTask data (q_task_id item)
                 in case resolveConflict localTask serverTask (q_operation item) of
                      ServerTask \<Rightarrow>
                        (Inr \<lparr>r_mapping = None,
                              r_conflict = Some (q_task_id item, serverTask),
                              r_server_id = None\<rparr>, s1)
                    | LocalTask \<Rightarrow>
                        (Inr \<lparr>r_mapping = None, r_conflict = None, r_server_id = None\<rparr>,
                         s1\<lparr>tasks :=
                            map (\<lambda>t. if t_id t = q_task_id item \<and> t_user_id t = userId
                                     then merge_row (q_operation item) data now serverTask t
                                     else t) (tasks s1)\<rparr>)))
         else (Inl (UnknownOperation (q_operation item)), s1))"

section \<open>Retry and dead-letter handling\<close>

text \<open>
  \<^verbatim>\<open>handleSyncError(item, error, userId)\<close>; \<open>data\<close> is \<^verbatim>\<open>item.data\<close>, the parsed payload.
  A database error inside is caught and logged: the dead-letter insert fails on a
  duplicate primary key, and then nothing else is done.
\<close>

definition handleSyncError :: "env \<Rightarrow> qrow \<Rightarrow> payload \<Rightarrow> error \<Rightarrow> string \<Rightarrow> world \<Rightarrow> world" where
  "handleSyncError E item data err userId s =
     (let retry_count = q_retry_count item + 1;
          error_message = message err
      in if retry_count \<ge> MAX_RETRIES then
           (let (deadLetterId, s1) = uuidv4 E s;
                (failed_at, s2) = new_Date E s1
            in if deadLetterId \<in> set (map d_id (dead_letter_queue s2)) then s2
               else
                 (let s3 = s2\<lparr>dead_letter_queue := dead_letter_queue s2 @
                            [\<lparr>d_id = deadLetterId, d_user_id = userId,
                              d_task_id = q_task_id item, d_operation = q_operation item,
                              d_data = JSON_stringify E data, d_retry_count = retry_count,
                              d_error_message = error_message,
                              d_original_created_at = q_created_at item,
                              d_failed_at = failed_at\<rparr>]\<rparr>;
                      s4 = s3\<lparr>sync_queue :=
                             filter (\<lambda>r. \<not> (q_id r = q_id item \<and> q_user_id r = userId))
                               (sync_queue s3)\<rparr>
                  in updateSyncStatus E (q_task_id item) St_failed userId None s4))
         else
           (let s1 = s\<lparr>sync_queue :=
                       map (\<lambda>r. if q_id r = q_id item \<and> q_user_id r = userId
                                then r\<lparr>q_retry_count := retry_count,
                                       q_error_message := Some error_message\<rparr>
                                else r) (sync_queue s)\<rparr>
            in updateSyncStatus E (q_task_id item) St_error userId None s1))"

section \<open>Processing a batch\<close>

record batch_result =
  mappings :: "(string \<times> string) list"
  conflicts :: "(string \<times> task) list"
  processed :: nat
  failed :: nat

definition no_result :: batch_result where
  "no_result = \<lparr>mappings = [], conflicts = [], processed = 0, failed = 0\<rparr>"

text \<open>The body of the loop of \<^verbatim>\<open>processBatch\<close>, for the queue row \<open>raw\<close>.\<close>

definition processBatch_step ::
  "env \<Rightarrow> string \<Rightarrow> qrow \<Rightarrow> batch_result \<times> world \<Rightarrow> batch_result \<times> world" where
  "processBatch_step E userId raw acc =
     (let data = safeParseJSON E (q_data raw)
      in case processItem E raw data userId (snd acc) of
           (Inr result, s1) \<Rightarrow>
             ((fst acc)\<lparr>mappings := mappings (fst acc) @
                          (case r_mapping result of None \<Rightarrow> [] | Some m \<Rightarrow> [m]),
                        conflicts := conflicts (fst acc) @
                          (case r_conflict result of None \<Rightarrow> [] | Some c \<Rightarrow> [c]),
                        processed := processed (fst acc) + 1\<rparr>,
              updateSyncStatus E (q_task_id raw) St_synced userId (r_server_id result) s1)
         | (Inl err, s1) \<Rightarrow>
             ((fst acc)\<lparr>failed := failed (fst acc) + 1\<rparr>,
              handleSyncError E raw data err userId s1))"

definition processBatch :: "env \<Rightarrow> qrow list \<Rightarrow> string \<Rightarrow> world \<Rightarrow> batch_result \<times> world" where
  "processBatch E items userId s = fold (processBatch_step E userId) items (no_result, s)"

section \<open>Batch fingerprint\<close>

text \<open>
  \<^verbatim>\<open>JSON.stringify\<close> on the strings, objects and arrays that the checksum serialises.
  A string is quoted; the quote, the backslash and the control characters are escaped.
\<close>

definition dq :: char where
  "dq = CHR 0x22"

definition bs :: char where
  "bs = CHR 0x5C"

definition hexdigit :: "nat \<Rightarrow> char" where
  "hexdigit n = ''0123456789abcdef'' ! (n mod 16)"

definition quote_char :: "char \<Rightarrow> string" where
  "quote_char c =
     (if c = dq then [bs, dq]
      else if c = bs then [bs, bs]
      else if c = CHR 0x08 then [bs, CHR ''b'']
      else if c = CHR 0x0C then [bs, CHR ''f'']
      else if c = CHR 0x0A then [bs, CHR ''n'']
      else if c = CHR 0x0D then [bs, CHR ''r'']
      else if c = CHR 0x09 then [bs, CHR ''t'']
      else if (of_char c :: nat) < 32
        then [bs, CHR ''u'', CHR ''0'', CHR ''0'',
              hexdigit (of_char c div 16), hexdigit (of_char c mod 16)]
      else [c])"

definition json_string :: "string \<Rightarrow> string" where
  "json_string s = dq # concat (map quote_char s) @ [dq]"

text \<open>The object \<^verbatim>\<open>{ id, task_id, operation, data }\<close> built for every item.\<close>

record citem =
  ci_id :: string
  ci_task_id :: string
  ci_operation :: string
  ci_data :: string

definition citem_of :: "qrow \<Rightarrow> citem" where
  "citem_of item = \<lparr>ci_id = q_id item, ci_task_id = q_task_id item,
     ci_operation = q_operation item, ci_data = q_data item\<rparr>"

definition json_key :: "string \<Rightarrow> string" where
  "json_key k = dq # k @ [dq, CHR '':'']"

definition json_item :: "citem \<Rightarrow> string" where
  "json_item c =
     ''{'' @ json_key ''id'' @ json_string (ci_id c) @
     '','' @ json_key ''task_id'' @ json_string (ci_task_id c) @
     '','' @ json_key ''operation'' @ json_string (ci_operation c) @
     '','' @ json_key ''data'' @ json_string (ci_data c) @ ''}''"

fun json_items :: "citem list \<Rightarrow> string" where
  "json_items [] = '']''"
| "json_items [c] = json_item c @ '']''"
| "json_items (c # d # cs) = json_item c @ '','' @ json_items (d # cs)"

definition json_array :: "citem list \<Rightarrow> string" where
  "json_array cs = ''['' @ json_items cs"

text \<open>
  \<^verbatim>\<open>Array.prototype.sort\<close> with a comparison function is stable: it is the insertion
  sort that keeps the input order of elements comparing equal.
\<close>

fun insert_sorted :: "('a \<Rightarrow> 'a \<Rightarrow> int) \<Rightarrow> 'a \<Rightarrow> 'a list \<Rightarrow> 'a list" where
  "insert_sorted cmp x [] = [x]"
| "insert_sorted cmp x (y # ys) =
     (if cmp x y \<le> 0 then x # y # ys else y # insert_sorted cmp x ys)"

fun array_sort :: "('a \<Rightarrow> 'a \<Rightarrow> int) \<Rightarrow> 'a list \<Rightarrow> 'a list" where
  "array_sort cmp [] = []"
| "array_sort cmp (x # xs) = insert_sorted cmp x (array_sort cmp xs)"

text \<open>\<^verbatim>\<open>digest('hex')\<close>: the sixteen bytes of the digest, two hexadecimal digits each.\<close>

definition hex_digest :: "128 word \<Rightarrow> string" where
  "hex_digest w = map (\<lambda>i. hexdigit (unat (drop_bit (4 * (31 - i)) w) mod 16)) [0..<32]"

definition sortedItems :: "env \<Rightarrow> qrow list \<Rightarrow> citem list" where
  "sortedItems E items =
     array_sort (\<lambda>a b. localeCompare E (ci_id a) (ci_id b)) (map citem_of items)"

definition generateBatchChecksum :: "env \<Rightarrow> qrow list \<Rightarrow> string" where
  "generateBatchChecksum E items = hex_digest (md5 E (json_array (sortedItems E items)))"

definition verifyBatchChecksum :: "env \<Rightarrow> qrow list \<Rightarrow> string \<Rightarrow> bool" where
  "verifyBatchChecksum E items expectedChecksum =
     (generateBatchChecksum E items = expectedChecksum)"

section \<open>The sync operation\<close>

text \<open>The first loop of \<^verbatim>\<open>sync\<close>: every change is validated and enqueued, in order.\<close>

fun enqueue_changes :: "env \<Rightarrow> change list \<Rightarrow> string \<Rightarrow> world \<Rightarrow> (error + unit) \<times> world" where
  "enqueue_changes E [] userId s = (Inr (), s)"
| "enqueue_changes E (c # cs) userId s =
     (if c_operation c \<notin> set [''create'', ''update'', ''delete'']
      then (Inl (InvalidOperation (c_operation c)), s)
      else
        (let taskId = (case c_server_id c of
                         None \<Rightarrow> c_local_id c
                       | Some x \<Rightarrow> if x = [] then c_local_id c else Some x)
         in case addToSyncQueue E taskId (c_operation c) (c_data c) userId None s of
              (Inl e, s1) \<Rightarrow> (Inl e, s1)
            | (Inr u, s1) \<Rightarrow> enqueue_changes E cs userId s1))"

text \<open>
  \<^verbatim>\<open>SELECT * FROM sync_queue WHERE user_id = ? ORDER BY task_id, operation_timestamp,
  created_at, id\<close>. Texts are compared bytewise, which is the lexicographic order on
  strings.
\<close>

definition queue_key :: "qrow \<Rightarrow> string \<times> timestamp \<times> timestamp \<times> string" where
  "queue_key r = (q_task_id r, q_operation_timestamp r, q_created_at r, q_id r)"

definition drain :: "string \<Rightarrow> world \<Rightarrow> qrow list" where
  "drain userId s = sort_key queue_key (filter (\<lambda>r. q_user_id r = userId) (sync_queue s))"

text \<open>
  The slices \<^verbatim>\<open>queueItems.slice(i, i + config.SYNC_BATCH_SIZE)\<close> for
  \<open>i = 0, SYNC_BATCH_SIZE, ...\<close>; the configuration reads a size of 0 as 50.
\<close>

definition batch_size :: "env \<Rightarrow> nat" where
  "batch_size E = (if SYNC_BATCH_SIZE E = 0 then 50 else SYNC_BATCH_SIZE E)"

function slices :: "nat \<Rightarrow> 'a list \<Rightarrow> 'a list list" where
  "slices n xs = (if n = 0 \<or> xs = [] then [] else take n xs # slices n (drop n xs))"
  by pat_completeness auto
termination
  by (relation "measure (\<lambda>(n, xs). length xs)") auto

declare slices.simps [simp del]

text \<open>The body of the loop over the batches.\<close>

definition sync_batch ::
  "env \<Rightarrow> string \<Rightarrow> qrow list \<Rightarrow> batch_result \<times> world \<Rightarrow> batch_result \<times> world" where
  "sync_batch E userId batch acc =
     (let checksum = generateBatchChecksum E batch
      in if \<not> verifyBatchChecksum E batch checksum
         then ((fst acc)\<lparr>failed := failed (fst acc) + length batch\<rparr>, snd acc)
         else
           (let s1 = fold (\<lambda>item. updateSyncStatus E (q_task_id item) St_in_progress userId None)
                       batch (snd acc);
                (r, s2) = processBatch E batch userId s1
            in ((fst acc)\<lparr>mappings := mappings (fst acc) @ mappings r,
                          conflicts := conflicts (fst acc) @ conflicts r,
                          processed := processed (fst acc) + processed r,
                          failed := failed (fst acc) + failed r\<rparr>, s2)))"

record sync_result =
  sr_mappings :: "(string \<times> string) list"
  sr_conflicts :: "(string \<times> task) list"
  sr_serverChanges :: "task list"
  sr_status :: string
  sr_processed :: nat
  sr_failed :: nat

text \<open>
  \<^verbatim>\<open>sync(changes, last_synced_at, userId, syncId)\<close>. A failure to insert the log row
  (a duplicate \<^verbatim>\<open>id\<close>) is ignored.
\<close>

definition sync ::
  "env \<Rightarrow> change list \<Rightarrow> timestamp \<Rightarrow> string \<Rightarrow> string option \<Rightarrow> world
     \<Rightarrow> (error + sync_result) \<times> world" where
  "sync E changes last_synced_at userId syncId s =
     (case enqueue_changes E changes userId s of
        (Inl e, s1) \<Rightarrow> (Inl e, s1)
      | (Inr u, s1) \<Rightarrow>
          (let queueItems = drain userId s1;
               batches = slices (batch_size E) queueItems;
               (r, s2) = fold (sync_batch E userId) batches (no_result, s1);
               (logId, s3) = (case syncId of
                                None \<Rightarrow> uuidv4 E s2
                              | Some x \<Rightarrow> if x = [] then uuidv4 E s2 else (x, s2));
               status = (if failed r > 0 then ''error'' else ''completed'');
               (created_at, s4) = new_Date E s3;
               s5 = (if logId \<in> set (map l_id (sync_logs s4)) then s4
                     else s4\<lparr>sync_logs := sync_logs s4 @
                            [\<lparr>l_id = logId, l_user_id = userId,
                              l_change_count = length queueItems,
                              l_processed = processed r, l_failed = failed r,
                              l_status = status, l_created_at = created_at\<rparr>]\<rparr>);
               serverChanges =
                 filter (\<lambda>t. t_user_id t = userId \<and> t_updated_at t > last_synced_at) (tasks s5)
           in (Inr \<lparr>sr_mappings = mappings r, sr_conflicts = conflicts r,
                    sr_serverChanges = serverChanges, sr_status = status,
                    sr_processed = processed r, sr_failed = failed r\<rparr>, s5)))"

section \<open>Example data\<close>

text \<open>
  A clock that advances by one millisecond per reading from 1000, identifiers
  \<open>u0\<close>, \<open>u1\<close>, ..., and a JSON codec given by its table on the payloads used below.
\<close>

definition pl :: "string option \<Rightarrow> timestamp option \<Rightarrow> payload" where
  "pl title updated = empty_payload\<lparr>p_title := title, p_updated_at := updated\<rparr>"

definition ex_parse :: "string \<Rightarrow> payload option" where
  "ex_parse s =
     (if s = ''{}'' then Some empty_payload
      else if s = ''{title:A}'' then Some (pl (Some ''A'') None)
      else if s = ''{title:B,updated_at:100}'' then Some (pl (Some ''B'') (Some 100))
      else if s = ''{title:C,updated_at:20}'' then Some (pl (Some ''C'') (Some 20))
      else if s = ''{updated_at:100}'' then Some (pl None (Some 100))
      else if s = ''{updated_at:200}'' then Some (pl None (Some 200))
      else None)"

definition ex_stringify :: "payload \<Rightarrow> string" where
  "ex_stringify p =
     (if p = pl (Some ''A'') None then ''{title:A}''
      else if p = pl (Some ''B'') (Some 100) then ''{title:B,updated_at:100}''
      else if p = pl (Some ''C'') (Some 20) then ''{title:C,updated_at:20}''
      else if p = pl None (Some 100) then ''{updated_at:100}''
      else if p = pl None (Some 200) then ''{updated_at:200}''
      else ''{}'')"

definition ex_compare :: "string \<Rightarrow> string \<Rightarrow> int" where
  "ex_compare a b = (if a < b then - 1 else if a = b then 0 else 1)"

definition ex_env :: env where
  "ex_env = \<lparr>now_at = (\<lambda>n. 1000 + int n), uuid_at = (\<lambda>n. CHR ''u'' # replicate n CHR ''i''),
     JSON_parse = ex_parse, JSON_stringify = ex_stringify, md5 = (\<lambda>s. of_nat (length s)),
     localeCompare = ex_compare, SYNC_BATCH_SIZE = 50\<rparr>"

definition ex_task :: task where
  "ex_task = \<lparr>t_id = ''R'', t_user_id = ''U'', t_title = ''T'', t_description = [],
     t_completed = False, t_created_at = 10, t_updated_at = 50, t_is_deleted = False,
     t_sync_status = St_pending, t_server_id = None, t_last_synced_at = None\<rparr>"

definition ex_row :: "string \<Rightarrow> string \<Rightarrow> string \<Rightarrow> string \<Rightarrow> timestamp \<Rightarrow> qrow" where
  "ex_row ident taskId operation data ts =
     \<lparr>q_id = ident, q_user_id = ''U'', q_task_id = taskId, q_operation = operation,
      q_data = data, q_retry_count = 0, q_error_message = None, q_created_at = ts,
      q_operation_timestamp = ts\<rparr>"

definition ex_world :: "task list \<Rightarrow> qrow list \<Rightarrow> world" where
  "ex_world ts q = \<lparr>tasks = ts, sync_queue = q, dead_letter_queue = [], sync_logs = [],
     clock_reads = 0, uuid_draws = 0\<rparr>"

definition ex_change :: "string \<Rightarrow> string \<Rightarrow> payload \<Rightarrow> change" where
  "ex_change operation localId data =
     \<lparr>c_operation = operation, c_local_id = Some localId, c_server_id = None,
      c_data = Some data\<rparr>"

section \<open>Notions used in the statements\<close>

text \<open>\<^verbatim>\<open>SELECT * FROM tasks WHERE id = ? AND user_id = ?\<close>: the record of an owner.\<close>

definition task_row :: "string \<Rightarrow> string \<Rightarrow> world \<Rightarrow> task option" where
  "task_row ident userId s = find (\<lambda>t. t_id t = ident \<and> t_user_id t = userId) (tasks s)"

text \<open>
  The chronological-per-record order, written out: target record id, then operation
  timestamp, then enqueue time, then operation identifier.
\<close>

definition ordered_per_record :: "qrow \<Rightarrow> qrow \<Rightarrow> bool" where
  "ordered_per_record r r' =
     (q_task_id r < q_task_id r' \<or>
      q_task_id r = q_task_id r' \<and>
        (q_operation_timestamp r < q_operation_timestamp r' \<or>
         q_operation_timestamp r = q_operation_timestamp r' \<and>
           (q_created_at r < q_created_at r' \<or>
            q_created_at r = q_created_at r' \<and> q_id r \<le> q_id r')))"

text \<open>Two databases whose queues agree up to the payload texts, at the same clock and UUID draws.\<close>

definition erase_data :: "qrow \<Rightarrow> qrow" where
  "erase_data r = r\<lparr>q_data := []\<rparr>"

definition same_keys :: "world \<Rightarrow> world \<Rightarrow> bool" where
  "same_keys s s' \<longleftrightarrow>
     map erase_data (sync_queue s) = map erase_data (sync_queue s') \<and>
     clock_reads s = clock_reads s' \<and> uuid_draws s = uuid_draws s'"

text \<open>What \<^verbatim>\<open>updateSyncStatus\<close> writes into the record it addresses.\<close>

definition serverId_of :: "string \<Rightarrow> string option \<Rightarrow> string" where
  "serverId_of taskId server_id =
     (case server_id of None \<Rightarrow> taskId | Some x \<Rightarrow> if x = [] then taskId else x)"

definition mark :: "sync_state \<Rightarrow> timestamp \<Rightarrow> string \<Rightarrow> task \<Rightarrow> task" where
  "mark status now serverId t =
     t\<lparr>t_sync_status := status, t_last_synced_at := Some now, t_server_id := Some serverId\<rparr>"



section \<open>The conflict resolver\<close>

lemma CONFLICT_PRIORITY_values:
  "CONFLICT_PRIORITY ''delete'' = Some 3"
  "CONFLICT_PRIORITY ''update'' = Some 2"
  "CONFLICT_PRIORITY ''create'' = Some 1"
  by (simp_all add: CONFLICT_PRIORITY_def)

text \<open>
  C2. The resolver is a function of the two timestamps and the local operation kind. The
  strictly later timestamp wins; on equal timestamps the local side wins when it is a
  delete or an update and the server side, taken to be an update, wins over a create.
\<close>

theorem resolveConflict_last_write_wins:
  "(t_updated_at serverTask < t_updated_at localTask \<longrightarrow>
      resolveConflict localTask serverTask k = LocalTask) \<and>
   (t_updated_at localTask < t_updated_at serverTask \<longrightarrow>
      resolveConflict localTask serverTask k = ServerTask) \<and>
   (t_updated_at localTask = t_updated_at serverTask \<longrightarrow>
      resolveConflict localTask serverTask ''delete'' = LocalTask \<and>
      resolveConflict localTask serverTask ''update'' = LocalTask \<and>
      resolveConflict localTask serverTask ''create'' = ServerTask)"
  by (simp add: resolveConflict_def CONFLICT_PRIORITY_values Let_def)

theorem resolveConflict_last_write_wins_witness:
  "resolveConflict (ex_task\<lparr>t_updated_at := 60\<rparr>) ex_task ''create'' = LocalTask \<and>
   resolveConflict (ex_task\<lparr>t_updated_at := 40\<rparr>) ex_task ''delete'' = ServerTask \<and>
   resolveConflict ex_task ex_task ''delete'' = LocalTask \<and>
   resolveConflict ex_task ex_task ''update'' = LocalTask \<and>
   resolveConflict ex_task ex_task ''create'' = ServerTask"
  using
    resolveConflict_last_write_wins
      [where localTask = "ex_task\<lparr>t_updated_at := 60\<rparr>" and serverTask = ex_task
         and k = "''create''"]
    resolveConflict_last_write_wins
      [where localTask = "ex_task\<lparr>t_updated_at := 40\<rparr>" and serverTask = ex_task
         and k = "''delete''"]
    resolveConflict_last_write_wins
      [where localTask = ex_task and serverTask = ex_task and k = "''update''"]
  by (simp add: ex_task_def)

section \<open>Draining the queue\<close>

lemma queue_key_le: "queue_key r \<le> queue_key r' \<longleftrightarrow> ordered_per_record r r'"
  by (auto simp: queue_key_def ordered_per_record_def less_eq_prod_def)

text \<open>
  C6. The rows read for an owner are exactly the owner's rows of the queue, each as often
  as it is there, in the order of target record id, operation timestamp, enqueue time and
  operation identifier.
\<close>

theorem drain_sorted_per_record:
  "sorted_wrt ordered_per_record (drain userId s) \<and>
   mset (drain userId s) = mset (filter (\<lambda>r. q_user_id r = userId) (sync_queue s))"
proof -
  have "sorted (map queue_key (drain userId s))"
    by (simp add: drain_def)
  then have "sorted_wrt (\<lambda>r r'. queue_key r \<le> queue_key r') (drain userId s)"
    by (simp add: sorted_map)
  then show ?thesis
    by (simp add: queue_key_le drain_def)
qed

section \<open>Enqueueing the client's changes\<close>

lemma addToSyncQueue_appends:
  "\<exists>new. sync_queue (snd (addToSyncQueue E taskId operation data userId None s)) =
            sync_queue s @ new \<and>
     (\<forall>r \<in> set new. q_operation_timestamp r = q_created_at r)"
  by (auto simp: addToSyncQueue_def uuidv4_def new_Date_def Let_def split: option.splits)

lemma enqueue_changes_appends:
  "\<exists>new. sync_queue (snd (enqueue_changes E changes userId s)) = sync_queue s @ new \<and>
     (\<forall>r \<in> set new. q_operation_timestamp r = q_created_at r)"
proof (induction changes arbitrary: s)
  case Nil
  show ?case by simp
next
  case (Cons c cs)
  show ?case
  proof (cases "c_operation c \<notin> set [''create'', ''update'', ''delete'']")
    case True
    then show ?thesis by simp
  next
    case False
    define taskId where "taskId = (case c_server_id c of None \<Rightarrow> c_local_id c
                       | Some x \<Rightarrow> if x = [] then c_local_id c else Some x)"
    obtain res s1 where
      a: "addToSyncQueue E taskId (c_operation c) (c_data c) userId None s = (res, s1)"
      by (cases "addToSyncQueue E taskId (c_operation c) (c_data c) userId None s")
    from addToSyncQueue_appends [of E taskId "c_operation c" "c_data c" userId s] a
    obtain new1 where n1: "sync_queue s1 = sync_queue s @ new1"
      "\<forall>r \<in> set new1. q_operation_timestamp r = q_created_at r" by auto
    show ?thesis
    proof (cases res)
      case (Inl e)
      with False a n1 show ?thesis by (auto simp: taskId_def)
    next
      case (Inr u)
      from Cons.IH [of s1] obtain new2 where n2:
        "sync_queue (snd (enqueue_changes E cs userId s1)) = sync_queue s1 @ new2"
        "\<forall>r \<in> set new2. q_operation_timestamp r = q_created_at r" by auto
      have "sync_queue (snd (enqueue_changes E (c # cs) userId s)) =
              sync_queue s @ (new1 @ new2)"
        using False a Inr n1 n2 by (simp add: taskId_def)
      moreover have "\<forall>r \<in> set (new1 @ new2). q_operation_timestamp r = q_created_at r"
        using n1 n2 by auto
      ultimately show ?thesis by blast
    qed
  qed
qed

lemma same_keys_refl: "same_keys s s"
  by (simp add: same_keys_def)

lemma same_keys_ids:
  assumes "same_keys s s'"
  shows "map q_id (sync_queue s) = map q_id (sync_queue s')"
proof -
  have k: "\<And>xs. map q_id (map erase_data xs) = map q_id xs"
    by (simp add: erase_data_def)
  have "map q_id (map erase_data (sync_queue s)) = map q_id (map erase_data (sync_queue s'))"
    using assms by (simp only: same_keys_def)
  then show ?thesis
    by (simp only: k)
qed

lemma same_keys_queue_key:
  assumes "same_keys s s'"
  shows "map queue_key (sync_queue s) = map queue_key (sync_queue s')"
proof -
  have k: "\<And>xs. map queue_key (map erase_data xs) = map queue_key xs"
    by (simp add: erase_data_def queue_key_def)
  have "map queue_key (map erase_data (sync_queue s)) =
          map queue_key (map erase_data (sync_queue s'))"
    using assms by (simp only: same_keys_def)
  then show ?thesis
    by (simp only: k)
qed

lemma addToSyncQueue_same_keys:
  assumes "same_keys s s'"
  shows "fst (addToSyncQueue E taskId operation d userId ts s) =
           fst (addToSyncQueue E taskId operation d' userId ts s') \<and>
         same_keys (snd (addToSyncQueue E taskId operation d userId ts s))
           (snd (addToSyncQueue E taskId operation d' userId ts s'))"
  using assms same_keys_ids [OF assms]
  by (auto simp: addToSyncQueue_def uuidv4_def new_Date_def Let_def same_keys_def
      erase_data_def split: option.splits)

lemma enqueue_changes_same_keys:
  assumes "same_keys s s'"
  shows "same_keys (snd (enqueue_changes E (map (\<lambda>c. c\<lparr>c_data := d c\<rparr>) changes) userId s))
           (snd (enqueue_changes E changes userId s'))"
  using assms
proof (induction changes arbitrary: s s')
  case Nil
  then show ?case by simp
next
  case (Cons c cs)
  show ?case
  proof (cases "c_operation c \<notin> set [''create'', ''update'', ''delete'']")
    case True
    with Cons.prems show ?thesis by simp
  next
    case False
    define taskId where "taskId = (case c_server_id c of None \<Rightarrow> c_local_id c
                       | Some x \<Rightarrow> if x = [] then c_local_id c else Some x)"
    obtain ra sa where
      a: "addToSyncQueue E taskId (c_operation c) (d c) userId None s = (ra, sa)"
      by (cases "addToSyncQueue E taskId (c_operation c) (d c) userId None s")
    obtain rb sb where
      b: "addToSyncQueue E taskId (c_operation c) (c_data c) userId None s' = (rb, sb)"
      by (cases "addToSyncQueue E taskId (c_operation c) (c_data c) userId None s'")
    from addToSyncQueue_same_keys
      [OF Cons.prems, of E taskId "c_operation c" "d c" userId None "c_data c"] a b
    have eq: "ra = rb" and sk: "same_keys sa sb" by auto
    show ?thesis
    proof (cases rb)
      case (Inl e)
      with eq sk False a b show ?thesis
        by (simp add: taskId_def cong: option.case_cong if_cong)
    next
      case (Inr u)
      with eq sk False a b Cons.IH [OF sk] show ?thesis
        by (simp add: taskId_def cong: option.case_cong if_cong)
    qed
  qed
qed

text \<open>
  C10. The rows that \<^verbatim>\<open>sync\<close> appends to the queue for the client's changes carry
  their enqueue time as operation timestamp, and the sort keys of the queue do not depend
  on the payloads of the changes (so not on a timestamp inside them); a caller that
  passes an operation timestamp, as the task service does, gets that one stored.
\<close>

theorem sync_enqueues_at_enqueue_time:
  "(\<exists>new. sync_queue (snd (enqueue_changes E changes userId s)) = sync_queue s @ new \<and>
      (\<forall>r \<in> set new. q_operation_timestamp r = q_created_at r)) \<and>
   map queue_key
     (sync_queue (snd (enqueue_changes E (map (\<lambda>c. c\<lparr>c_data := d c\<rparr>) changes) userId s))) =
   map queue_key (sync_queue (snd (enqueue_changes E changes userId s))) \<and>
   (\<forall>r \<in> set (sync_queue (snd (addToSyncQueue E taskId operation data userId (Some t) s))).
      r \<in> set (sync_queue s) \<or> q_operation_timestamp r = t)"
proof (intro conjI)
  show "\<exists>new. sync_queue (snd (enqueue_changes E changes userId s)) = sync_queue s @ new \<and>
      (\<forall>r \<in> set new. q_operation_timestamp r = q_created_at r)"
    by (rule enqueue_changes_appends)
  show "map queue_key
     (sync_queue (snd (enqueue_changes E (map (\<lambda>c. c\<lparr>c_data := d c\<rparr>) changes) userId s))) =
   map queue_key (sync_queue (snd (enqueue_changes E changes userId s)))"
    by (rule same_keys_queue_key [OF enqueue_changes_same_keys [OF same_keys_refl]])
  show "\<forall>r \<in> set (sync_queue (snd (addToSyncQueue E taskId operation data userId (Some t) s))).
      r \<in> set (sync_queue s) \<or> q_operation_timestamp r = t"
    by (auto simp: addToSyncQueue_def uuidv4_def new_Date_def Let_def split: option.splits)
qed

theorem sync_enqueues_at_enqueue_time_witness:
  "map (\<lambda>r. (q_operation r, q_operation_timestamp r, q_created_at r))
     (sync_queue (snd (enqueue_changes ex_env
        [ex_change ''update'' ''R'' (pl (Some ''B'') (Some 100)),
         ex_change ''delete'' ''R'' (pl None (Some 200))] ''U'' (ex_world [ex_task] [])))) =
     [(''update'', 1000, 1000), (''delete'', 1001, 1001)] \<and>
   map queue_key
     (sync_queue (snd (enqueue_changes ex_env
        (map (\<lambda>c. c\<lparr>c_data := None\<rparr>)
          [ex_change ''update'' ''R'' (pl (Some ''B'') (Some 100)),
           ex_change ''delete'' ''R'' (pl None (Some 200))]) ''U'' (ex_world [ex_task] [])))) =
     [(''R'', 1000, 1000, ''u''), (''R'', 1001, 1001, ''ui'')] \<and>
   map (\<lambda>r. (q_operation_timestamp r, q_created_at r))
     (sync_queue (snd (addToSyncQueue ex_env (Some ''R'') ''delete'' None ''U'' (Some 200)
        (ex_world [ex_task] [])))) = [(200, 1000)]"
proof -
  let ?cs = "[ex_change ''update'' ''R'' (pl (Some ''B'') (Some 100)),
              ex_change ''delete'' ''R'' (pl None (Some 200))]"
  have a: "map (\<lambda>r. (q_operation r, q_operation_timestamp r, q_created_at r))
     (sync_queue (snd (enqueue_changes ex_env ?cs ''U'' (ex_world [ex_task] [])))) =
     [(''update'', 1000, 1000), (''delete'', 1001, 1001)]"
    by code_simp
  have b: "map queue_key (sync_queue (snd (enqueue_changes ex_env ?cs ''U''
      (ex_world [ex_task] [])))) = [(''R'', 1000, 1000, ''u''), (''R'', 1001, 1001, ''ui'')]"
    by code_simp
  have c: "map (\<lambda>r. (q_operation_timestamp r, q_created_at r))
     (sync_queue (snd (addToSyncQueue ex_env (Some ''R'') ''delete'' None ''U'' (Some 200)
        (ex_world [ex_task] [])))) = [(200, 1000)]"
    by code_simp
  from sync_enqueues_at_enqueue_time
    [of ex_env ?cs "''U''" "ex_world [ex_task] []" "\<lambda>c. None" "Some ''R''" "''delete''" None 200]
  have "map queue_key
     (sync_queue (snd (enqueue_changes ex_env (map (\<lambda>c. c\<lparr>c_data := None\<rparr>) ?cs) ''U''
        (ex_world [ex_task] [])))) =
     map queue_key (sync_queue (snd (enqueue_changes ex_env ?cs ''U'' (ex_world [ex_task] []))))"
    by blast
  with a b c show ?thesis by simp
qed

section \<open>Status updates and lookups\<close>

lemma find_map_same:
  assumes "\<And>x. P (f x) = P x"
  shows "find P (map f xs) = map_option f (find P xs)"
  using assms by (induction xs) auto

lemma find_map_other:
  assumes "\<And>x. P x \<Longrightarrow> f x = x" "\<And>x. P (f x) = P x"
  shows "find P (map f xs) = find P xs"
  using assms by (induction xs) auto

lemma tasks_updateSyncStatus:
  "tasks (updateSyncStatus E taskId status userId sid s) =
     map (\<lambda>t. if t_id t = taskId \<and> t_user_id t = userId
              then mark status (now_at E (clock_reads s)) (serverId_of taskId sid) t else t) (tasks s)"
  by (simp add: updateSyncStatus_def new_Date_def Let_def mark_def serverId_of_def)

lemma task_row_updateSyncStatus:
  "task_row i u (updateSyncStatus E taskId status userId sid s) =
     (if i = taskId \<and> u = userId
      then map_option (mark status (now_at E (clock_reads s)) (serverId_of taskId sid)) (task_row i u s)
      else task_row i u s)"
proof (cases "i = taskId \<and> u = userId")
  case True
  have "find (\<lambda>t. t_id t = i \<and> t_user_id t = u)
          (map (\<lambda>t. if t_id t = taskId \<and> t_user_id t = userId
              then mark status (now_at E (clock_reads s)) (serverId_of taskId sid) t else t) (tasks s)) =
        map_option (\<lambda>t. if t_id t = taskId \<and> t_user_id t = userId
              then mark status (now_at E (clock_reads s)) (serverId_of taskId sid) t else t)
          (find (\<lambda>t. t_id t = i \<and> t_user_id t = u) (tasks s))"
    by (rule find_map_same) (simp add: mark_def)
  also have "\<dots> = map_option (mark status (now_at E (clock_reads s)) (serverId_of taskId sid))
          (find (\<lambda>t. t_id t = i \<and> t_user_id t = u) (tasks s))"
    using True by (cases "find (\<lambda>t. t_id t = i \<and> t_user_id t = u) (tasks s)")
      (auto dest: find_Some_iff [THEN iffD1])
  finally show ?thesis using True
    by (simp add: task_row_def tasks_updateSyncStatus)
next
  case False
  have "find (\<lambda>t. t_id t = i \<and> t_user_id t = u)
          (map (\<lambda>t. if t_id t = taskId \<and> t_user_id t = userId
              then mark status (now_at E (clock_reads s)) (serverId_of taskId sid) t else t) (tasks s)) =
        find (\<lambda>t. t_id t = i \<and> t_user_id t = u) (tasks s)"
    using False by (intro find_map_other) (auto simp: mark_def)
  with False show ?thesis
    by (auto simp: task_row_def tasks_updateSyncStatus)
qed

lemma sync_queue_updateSyncStatus:
  "sync_queue (updateSyncStatus E taskId status userId sid s) =
     (if status = St_synced
      then filter (\<lambda>r. \<not> (q_task_id r = taskId \<and> q_user_id r = userId)) (sync_queue s)
      else sync_queue s)"
  by (simp add: updateSyncStatus_def new_Date_def Let_def)

lemma others_updateSyncStatus:
  "dead_letter_queue (updateSyncStatus E taskId status userId sid s) = dead_letter_queue s"
  "sync_logs (updateSyncStatus E taskId status userId sid s) = sync_logs s"
  "clock_reads (updateSyncStatus E taskId status userId sid s) = Suc (clock_reads s)"
  "uuid_draws (updateSyncStatus E taskId status userId sid s) = uuid_draws s"
  by (simp_all add: updateSyncStatus_def new_Date_def Let_def)


lemma getTask_task_row:
  "ident \<noteq> [] \<Longrightarrow> userId \<noteq> [] \<Longrightarrow>
     getTaskByIdIncludingDeleted ident userId s = Inr (task_row ident userId s)"
  by (simp add: getTaskByIdIncludingDeleted_def task_row_def)

lemma task_row_clock [simp]:
  "task_row i u (s\<lparr>clock_reads := n\<rparr>) = task_row i u s"
  "task_row i u (s\<lparr>uuid_draws := m\<rparr>) = task_row i u s"
  "task_row i u (s\<lparr>sync_queue := q\<rparr>) = task_row i u s"
  "task_row i u (s\<lparr>dead_letter_queue := dl\<rparr>) = task_row i u s"
  by (simp_all add: task_row_def)

section \<open>Operations on a missing record\<close>

text \<open>
  C8 (as amended). An update whose target record does not exist and whose payload has a
  title is applied as a create: a fresh identifier is drawn, a record with status
  \<^verbatim>\<open>synced\<close> is appended under it and the mapping from the target id to it is
  returned. A delete on a missing record succeeds and is counted as processed, but it
  writes no record and returns no mapping.
\<close>

theorem implicit_create_only_for_update:
  assumes "q_task_id item \<noteq> []" and "userId \<noteq> []"
    and "task_row (q_task_id item) userId s = None"
  shows
    "(q_operation item = ''update'' \<and> p_title data = Some title \<and>
      uuid_at E (uuid_draws s) \<notin> set (map t_id (tasks s)) \<longrightarrow>
        (\<exists>t. fst (processItem E item data userId s) =
               Inr \<lparr>r_mapping = Some (q_task_id item, uuid_at E (uuid_draws s)),
                    r_conflict = None, r_server_id = Some (uuid_at E (uuid_draws s))\<rparr> \<and>
             tasks (snd (processItem E item data userId s)) = tasks s @ [t] \<and>
             t_id t = uuid_at E (uuid_draws s) \<and> t_user_id t = userId \<and>
             t_title t = title \<and> t_sync_status t = St_synced \<and> \<not> t_is_deleted t \<and>
             t_server_id t = Some (uuid_at E (uuid_draws s)))) \<and>
     (q_operation item = ''delete'' \<longrightarrow>
        fst (processItem E item data userId s) =
          Inr \<lparr>r_mapping = None, r_conflict = None, r_server_id = None\<rparr> \<and>
        tasks (snd (processItem E item data userId s)) = tasks s \<and>
        fst (processBatch_step E userId item (acc, s)) =
          acc\<lparr>processed := processed acc + 1\<rparr>)"
proof (intro conjI impI)
  assume a: "q_operation item = ''update'' \<and> p_title data = Some title \<and>
      uuid_at E (uuid_draws s) \<notin> set (map t_id (tasks s))"
  have g: "getTaskByIdIncludingDeleted (q_task_id item) userId (s\<lparr>clock_reads := Suc (clock_reads s)\<rparr>) = Inr None"
    using assms by (simp add: getTask_task_row)
  show "\<exists>t. fst (processItem E item data userId s) =
               Inr \<lparr>r_mapping = Some (q_task_id item, uuid_at E (uuid_draws s)),
                    r_conflict = None, r_server_id = Some (uuid_at E (uuid_draws s))\<rparr> \<and>
             tasks (snd (processItem E item data userId s)) = tasks s @ [t] \<and>
             t_id t = uuid_at E (uuid_draws s) \<and> t_user_id t = userId \<and>
             t_title t = title \<and> t_sync_status t = St_synced \<and> \<not> t_is_deleted t \<and>
             t_server_id t = Some (uuid_at E (uuid_draws s))"
    using a g
    by (simp add: processItem_def processItem_create_def new_Date_def uuidv4_def Let_def)
next
  assume d: "q_operation item = ''delete''"
  have g: "getTaskByIdIncludingDeleted (q_task_id item) userId (s\<lparr>clock_reads := Suc (clock_reads s)\<rparr>) = Inr None"
    using assms by (simp add: getTask_task_row)
  show "fst (processItem E item data userId s) =
          Inr \<lparr>r_mapping = None, r_conflict = None, r_server_id = None\<rparr>"
    using d g by (simp add: processItem_def new_Date_def Let_def)
  show "tasks (snd (processItem E item data userId s)) = tasks s"
    using d g by (simp add: processItem_def new_Date_def Let_def)
  have g': "getTaskByIdIncludingDeleted (q_task_id item) userId (s\<lparr>clock_reads := Suc (clock_reads s)\<rparr>) = Inr None"
    using assms by (simp add: getTask_task_row)
  show "fst (processBatch_step E userId item (acc, s)) = acc\<lparr>processed := processed acc + 1\<rparr>"
    using d g' by (simp add: processBatch_step_def processItem_def new_Date_def Let_def)
qed



theorem implicit_create_only_for_update_witness:
  "fst (processItem ex_env (ex_row ''q1'' ''M'' ''update'' ''{title:A}'' 100)
          (pl (Some ''A'') None) ''U'' (ex_world [] [])) =
     Inr \<lparr>r_mapping = Some (''M'', ''u''), r_conflict = None, r_server_id = Some ''u''\<rparr> \<and>
   map (\<lambda>t. (t_id t, t_sync_status t))
     (tasks (snd (processItem ex_env (ex_row ''q1'' ''M'' ''update'' ''{title:A}'' 100)
          (pl (Some ''A'') None) ''U'' (ex_world [] [])))) = [(''u'', St_synced)] \<and>
   fst (processItem ex_env (ex_row ''q2'' ''M'' ''delete'' ''{}'' 100)
          empty_payload ''U'' (ex_world [] [])) =
     Inr \<lparr>r_mapping = None, r_conflict = None, r_server_id = None\<rparr> \<and>
   tasks (snd (processItem ex_env (ex_row ''q2'' ''M'' ''delete'' ''{}'' 100)
          empty_payload ''U'' (ex_world [] []))) = []"
proof -
  let ?u = "ex_row ''q1'' ''M'' ''update'' ''{title:A}'' 100"
  let ?d = "ex_row ''q2'' ''M'' ''delete'' ''{}'' 100"
  let ?w = "ex_world [] []"
  have h: "q_task_id ?u \<noteq> []" "q_task_id ?d \<noteq> []" "''U'' \<noteq> []"
    "task_row (q_task_id ?u) ''U'' ?w = None" "task_row (q_task_id ?d) ''U'' ?w = None"
    by (simp_all add: ex_row_def ex_world_def task_row_def)
  have pre: "q_operation ?u = ''update'' \<and> p_title (pl (Some ''A'') None) = Some ''A'' \<and>
      uuid_at ex_env (uuid_draws ?w) \<notin> set (map t_id (tasks ?w))"
    "q_operation ?d = ''delete''"
    by (simp_all add: ex_row_def ex_world_def pl_def)
  have v: "uuid_at ex_env (uuid_draws ?w) = ''u''" "q_task_id ?u = ''M''" "tasks ?w = []"
    by (simp_all add: ex_env_def ex_world_def ex_row_def)
  from implicit_create_only_for_update
    [OF h(1) h(3) h(4), where E = ex_env and data = "pl (Some ''A'') None" and title = "''A''"
       and acc = no_result] pre(1)
  obtain t where u: "fst (processItem ex_env ?u (pl (Some ''A'') None) ''U'' ?w) =
      Inr \<lparr>r_mapping = Some (''M'', ''u''), r_conflict = None, r_server_id = Some ''u''\<rparr>"
    "tasks (snd (processItem ex_env ?u (pl (Some ''A'') None) ''U'' ?w)) = [t]"
    "t_id t = ''u''" "t_sync_status t = St_synced"
    unfolding v by auto
  from implicit_create_only_for_update
    [OF h(2) h(3) h(5), where E = ex_env and data = empty_payload and title = "''A''"
       and acc = no_result] pre(2)
  have d: "fst (processItem ex_env ?d empty_payload ''U'' ?w) =
      Inr \<lparr>r_mapping = None, r_conflict = None, r_server_id = None\<rparr>"
    "tasks (snd (processItem ex_env ?d empty_payload ''U'' ?w)) = []"
    unfolding v by auto
  from u d show ?thesis by simp
qed

theorem delete_on_missing_record_creates_nothing:
  "fst (processItem ex_env (ex_row ''q2'' ''M'' ''delete'' ''{}'' 100)
          empty_payload ''U'' (ex_world [] [])) =
     Inr \<lparr>r_mapping = None, r_conflict = None, r_server_id = None\<rparr> \<and>
   tasks (snd (processItem ex_env (ex_row ''q2'' ''M'' ''delete'' ''{}'' 100)
          empty_payload ''U'' (ex_world [] []))) = [] \<and>
   fst (processItem ex_env (ex_row ''q1'' ''M'' ''update'' ''{updated_at:100}'' 100)
          (pl None (Some 100)) ''U'' (ex_world [] [])) =
     Inl (NotNullConstraint ''tasks.title'') \<and>
   tasks (snd (processItem ex_env (ex_row ''q1'' ''M'' ''update'' ''{updated_at:100}'' 100)
          (pl None (Some 100)) ''U'' (ex_world [] []))) = []"
  by code_simp

section \<open>Retry and dead-letter escalation\<close>

lemma row_by_id:
  assumes "item \<in> set q" and "distinct (map q_id q)" and "q_user_id item = userId"
  shows "filter (\<lambda>r. \<not> (q_id r = q_id item \<and> q_user_id r = userId)) q = filter (\<lambda>r. r \<noteq> item) q"
    and "map (\<lambda>r. if q_id r = q_id item \<and> q_user_id r = userId then f r else r) q =
         map (\<lambda>r. if r = item then f item else r) q"
proof -
  have inj: "inj_on q_id (set q)"
    using assms(2) by (simp add: distinct_map)
  have eq: "\<And>r. r \<in> set q \<Longrightarrow> (q_id r = q_id item \<and> q_user_id r = userId) = (r = item)"
    using inj assms(1,3) by (auto dest: inj_onD)
  show "filter (\<lambda>r. \<not> (q_id r = q_id item \<and> q_user_id r = userId)) q = filter (\<lambda>r. r \<noteq> item) q"
    by (rule filter_cong) (simp_all add: eq)
  show "map (\<lambda>r. if q_id r = q_id item \<and> q_user_id r = userId then f r else r) q =
         map (\<lambda>r. if r = item then f item else r) q"
    by (rule map_cong) (auto simp: eq)
qed

text \<open>
  C4. When applying a queued operation of the owner fails, its retry count is incremented
  and the error message recorded. If the new count reaches \<open>MAX_RETRIES = 3\<close> (and the
  identifier drawn for the dead-letter row is fresh), exactly one row is appended to the
  dead-letter store, holding the operation with that count and message, the operation is
  removed from the queue, every other row stays, and the target record gets status
  \<^verbatim>\<open>failed\<close>. Below 3 the dead-letter store is untouched, the operation stays queued
  with the new count and message, and the target record gets status \<^verbatim>\<open>error\<close>.
\<close>

theorem handleSyncError_retry_or_dead_letter:
  assumes "item \<in> set (sync_queue s)" and "q_user_id item = userId"
    and "distinct (map q_id (sync_queue s))"
  shows
    "(MAX_RETRIES \<le> q_retry_count item + 1 \<and>
      uuid_at E (uuid_draws s) \<notin> set (map d_id (dead_letter_queue s)) \<longrightarrow>
        dead_letter_queue (handleSyncError E item data err userId s) =
          dead_letter_queue s @
            [\<lparr>d_id = uuid_at E (uuid_draws s), d_user_id = userId, d_task_id = q_task_id item,
              d_operation = q_operation item, d_data = JSON_stringify E data,
              d_retry_count = q_retry_count item + 1, d_error_message = message err,
              d_original_created_at = q_created_at item,
              d_failed_at = now_at E (clock_reads s)\<rparr>] \<and>
        sync_queue (handleSyncError E item data err userId s) =
          filter (\<lambda>r. r \<noteq> item) (sync_queue s) \<and>
        task_row (q_task_id item) userId (handleSyncError E item data err userId s) =
          map_option (mark St_failed (now_at E (Suc (clock_reads s))) (q_task_id item))
            (task_row (q_task_id item) userId s)) \<and>
     (q_retry_count item + 1 < MAX_RETRIES \<longrightarrow>
        dead_letter_queue (handleSyncError E item data err userId s) = dead_letter_queue s \<and>
        sync_queue (handleSyncError E item data err userId s) =
          map (\<lambda>r. if r = item
                   then item\<lparr>q_retry_count := q_retry_count item + 1,
                             q_error_message := Some (message err)\<rparr>
                   else r) (sync_queue s) \<and>
        task_row (q_task_id item) userId (handleSyncError E item data err userId s) =
          map_option (mark St_error (now_at E (clock_reads s)) (q_task_id item))
            (task_row (q_task_id item) userId s)) \<and>
     MAX_RETRIES = 3"
proof (intro conjI impI)
  assume a: "MAX_RETRIES \<le> q_retry_count item + 1 \<and>
      uuid_at E (uuid_draws s) \<notin> set (map d_id (dead_letter_queue s))"
  then show "dead_letter_queue (handleSyncError E item data err userId s) =
          dead_letter_queue s @
            [\<lparr>d_id = uuid_at E (uuid_draws s), d_user_id = userId, d_task_id = q_task_id item,
              d_operation = q_operation item, d_data = JSON_stringify E data,
              d_retry_count = q_retry_count item + 1, d_error_message = message err,
              d_original_created_at = q_created_at item,
              d_failed_at = now_at E (clock_reads s)\<rparr>]"
    by (simp add: handleSyncError_def uuidv4_def new_Date_def Let_def others_updateSyncStatus)
  from a have "sync_queue (handleSyncError E item data err userId s) =
      filter (\<lambda>r. \<not> (q_id r = q_id item \<and> q_user_id r = userId)) (sync_queue s)"
    by (simp add: handleSyncError_def uuidv4_def new_Date_def Let_def sync_queue_updateSyncStatus)
  also have "\<dots> = filter (\<lambda>r. r \<noteq> item) (sync_queue s)"
    by (rule row_by_id(1) [OF assms(1,3,2)])
  finally show "sync_queue (handleSyncError E item data err userId s) =
          filter (\<lambda>r. r \<noteq> item) (sync_queue s)" .
  from a show "task_row (q_task_id item) userId (handleSyncError E item data err userId s) =
          map_option (mark St_failed (now_at E (Suc (clock_reads s))) (q_task_id item))
            (task_row (q_task_id item) userId s)"
    by (simp add: handleSyncError_def uuidv4_def new_Date_def Let_def task_row_updateSyncStatus
        serverId_of_def)
next
  assume b: "q_retry_count item + 1 < MAX_RETRIES"
  then show "dead_letter_queue (handleSyncError E item data err userId s) = dead_letter_queue s"
    by (simp add: handleSyncError_def Let_def others_updateSyncStatus)
  from b have "sync_queue (handleSyncError E item data err userId s) =
      map (\<lambda>r. if q_id r = q_id item \<and> q_user_id r = userId
               then r\<lparr>q_retry_count := q_retry_count item + 1,
                      q_error_message := Some (message err)\<rparr>
               else r) (sync_queue s)"
    by (simp add: handleSyncError_def Let_def sync_queue_updateSyncStatus)
  also have "\<dots> = map (\<lambda>r. if r = item
                   then item\<lparr>q_retry_count := q_retry_count item + 1,
                             q_error_message := Some (message err)\<rparr>
                   else r) (sync_queue s)"
    by (rule row_by_id(2) [OF assms(1,3,2)])
  finally show "sync_queue (handleSyncError E item data err userId s) =
          map (\<lambda>r. if r = item
                   then item\<lparr>q_retry_count := q_retry_count item + 1,
                             q_error_message := Some (message err)\<rparr>
                   else r) (sync_queue s)" .
  from b show "task_row (q_task_id item) userId (handleSyncError E item data err userId s) =
          map_option (mark St_error (now_at E (clock_reads s)) (q_task_id item))
            (task_row (q_task_id item) userId s)"
    by (simp add: handleSyncError_def Let_def task_row_updateSyncStatus serverId_of_def)
next
  show "MAX_RETRIES = 3" by (simp add: MAX_RETRIES_def)
qed

theorem handleSyncError_retry_or_dead_letter_witness:
  "map (\<lambda>d. (d_task_id d, d_operation d, d_retry_count d, d_error_message d))
     (dead_letter_queue
       (handleSyncError ex_env ((ex_row ''q1'' ''R'' ''create'' ''{}'' 100)\<lparr>q_retry_count := 2\<rparr>)
          empty_payload (NotNullConstraint ''tasks.title'') ''U''
          (ex_world [ex_task] [(ex_row ''q1'' ''R'' ''create'' ''{}'' 100)\<lparr>q_retry_count := 2\<rparr>]))) =
     [(''R'', ''create'', 3, message (NotNullConstraint ''tasks.title''))] \<and>
   sync_queue
     (handleSyncError ex_env ((ex_row ''q1'' ''R'' ''create'' ''{}'' 100)\<lparr>q_retry_count := 2\<rparr>)
        empty_payload (NotNullConstraint ''tasks.title'') ''U''
        (ex_world [ex_task] [(ex_row ''q1'' ''R'' ''create'' ''{}'' 100)\<lparr>q_retry_count := 2\<rparr>])) = [] \<and>
   map_option t_sync_status (task_row ''R'' ''U''
     (handleSyncError ex_env ((ex_row ''q1'' ''R'' ''create'' ''{}'' 100)\<lparr>q_retry_count := 2\<rparr>)
        empty_payload (NotNullConstraint ''tasks.title'') ''U''
        (ex_world [ex_task] [(ex_row ''q1'' ''R'' ''create'' ''{}'' 100)\<lparr>q_retry_count := 2\<rparr>]))) =
     Some St_failed \<and>
   dead_letter_queue
     (handleSyncError ex_env (ex_row ''q1'' ''R'' ''create'' ''{}'' 100)
        empty_payload (NotNullConstraint ''tasks.title'') ''U''
        (ex_world [ex_task] [ex_row ''q1'' ''R'' ''create'' ''{}'' 100])) = [] \<and>
   map (\<lambda>r. (q_id r, q_retry_count r, q_error_message r))
     (sync_queue
       (handleSyncError ex_env (ex_row ''q1'' ''R'' ''create'' ''{}'' 100)
          empty_payload (NotNullConstraint ''tasks.title'') ''U''
          (ex_world [ex_task] [ex_row ''q1'' ''R'' ''create'' ''{}'' 100]))) =
     [(''q1'', 1, Some (message (NotNullConstraint ''tasks.title'')))] \<and>
   map_option t_sync_status (task_row ''R'' ''U''
     (handleSyncError ex_env (ex_row ''q1'' ''R'' ''create'' ''{}'' 100)
        empty_payload (NotNullConstraint ''tasks.title'') ''U''
        (ex_world [ex_task] [ex_row ''q1'' ''R'' ''create'' ''{}'' 100]))) =
     Some St_error"
proof -
  let ?i0 = "ex_row ''q1'' ''R'' ''create'' ''{}'' 100"
  let ?i2 = "?i0\<lparr>q_retry_count := 2\<rparr>"
  let ?e = "NotNullConstraint ''tasks.title''"
  have h2: "?i2 \<in> set (sync_queue (ex_world [ex_task] [?i2]))" "q_user_id ?i2 = ''U''"
    "distinct (map q_id (sync_queue (ex_world [ex_task] [?i2])))"
    by (simp_all add: ex_world_def ex_row_def)
  have h0: "?i0 \<in> set (sync_queue (ex_world [ex_task] [?i0]))" "q_user_id ?i0 = ''U''"
    "distinct (map q_id (sync_queue (ex_world [ex_task] [?i0])))"
    by (simp_all add: ex_world_def ex_row_def)
  have p2: "MAX_RETRIES \<le> q_retry_count ?i2 + 1 \<and>
      uuid_at ex_env (uuid_draws (ex_world [ex_task] [?i2])) \<notin>
        set (map d_id (dead_letter_queue (ex_world [ex_task] [?i2])))"
    by (simp add: MAX_RETRIES_def ex_world_def ex_row_def)
  have p0: "q_retry_count ?i0 + 1 < MAX_RETRIES"
    by (simp add: MAX_RETRIES_def ex_row_def)
  have r: "task_row ''R'' ''U'' (ex_world [ex_task] [?i2]) = Some ex_task"
    "task_row ''R'' ''U'' (ex_world [ex_task] [?i0]) = Some ex_task"
    "q_task_id ?i2 = ''R''" "q_task_id ?i0 = ''R''"
    by (simp_all add: task_row_def ex_world_def ex_task_def ex_row_def)
  note T2 = handleSyncError_retry_or_dead_letter
    [OF h2, where E = ex_env and data = empty_payload and err = ?e]
  note T0 = handleSyncError_retry_or_dead_letter
    [OF h0, where E = ex_env and data = empty_payload and err = ?e]
  from T2 p2 have a:
    "dead_letter_queue (handleSyncError ex_env ?i2 empty_payload ?e ''U''
        (ex_world [ex_task] [?i2])) =
       dead_letter_queue (ex_world [ex_task] [?i2]) @
         [\<lparr>d_id = uuid_at ex_env (uuid_draws (ex_world [ex_task] [?i2])), d_user_id = ''U'',
           d_task_id = q_task_id ?i2, d_operation = q_operation ?i2,
           d_data = JSON_stringify ex_env empty_payload,
           d_retry_count = q_retry_count ?i2 + 1, d_error_message = message ?e,
           d_original_created_at = q_created_at ?i2,
           d_failed_at = now_at ex_env (clock_reads (ex_world [ex_task] [?i2]))\<rparr>]"
    "sync_queue (handleSyncError ex_env ?i2 empty_payload ?e ''U''
        (ex_world [ex_task] [?i2])) =
       filter (\<lambda>r. r \<noteq> ?i2) (sync_queue (ex_world [ex_task] [?i2]))"
    "task_row (q_task_id ?i2) ''U'' (handleSyncError ex_env ?i2 empty_payload ?e ''U''
        (ex_world [ex_task] [?i2])) =
       map_option (mark St_failed (now_at ex_env (Suc (clock_reads (ex_world [ex_task] [?i2]))))
         (q_task_id ?i2)) (task_row (q_task_id ?i2) ''U'' (ex_world [ex_task] [?i2]))"
    by blast+
  from T0 p0 have b:
    "dead_letter_queue (handleSyncError ex_env ?i0 empty_payload ?e ''U''
        (ex_world [ex_task] [?i0])) = dead_letter_queue (ex_world [ex_task] [?i0])"
    "sync_queue (handleSyncError ex_env ?i0 empty_payload ?e ''U''
        (ex_world [ex_task] [?i0])) =
       map (\<lambda>r. if r = ?i0
                then ?i0\<lparr>q_retry_count := q_retry_count ?i0 + 1,
                         q_error_message := Some (message ?e)\<rparr>
                else r) (sync_queue (ex_world [ex_task] [?i0]))"
    "task_row (q_task_id ?i0) ''U'' (handleSyncError ex_env ?i0 empty_payload ?e ''U''
        (ex_world [ex_task] [?i0])) =
       map_option (mark St_error (now_at ex_env (clock_reads (ex_world [ex_task] [?i0])))
         (q_task_id ?i0)) (task_row (q_task_id ?i0) ''U'' (ex_world [ex_task] [?i0]))"
    by blast+
  show ?thesis
    unfolding a(1,2) b(1,2) a(3) [unfolded r] b(3) [unfolded r]
    by (simp add: ex_world_def ex_row_def mark_def)
qed

section \<open>Malformed payloads\<close>











section \<open>Conflicts won by the server\<close>

lemma conflict_step:
  assumes "q_operation raw = ''update'' \<or> q_operation raw = ''delete''"
    and "q_task_id raw \<noteq> []" and "userId \<noteq> []"
    and "task_row (q_task_id raw) userId s = Some serverTask"
    and "resolveConflict
           (localTask_of serverTask (safeParseJSON E (q_data raw)) (q_task_id raw))
           serverTask (q_operation raw) = ServerTask"
  shows
    "processItem E raw (safeParseJSON E (q_data raw)) userId s =
       (Inr \<lparr>r_mapping = None, r_conflict = Some (q_task_id raw, serverTask),
             r_server_id = None\<rparr>, s\<lparr>clock_reads := Suc (clock_reads s)\<rparr>) \<and>
     fst (processBatch_step E userId raw (acc, s)) =
       acc\<lparr>conflicts := conflicts acc @ [(q_task_id raw, serverTask)],
           processed := processed acc + 1\<rparr> \<and>
     task_row (q_task_id raw) userId (snd (processBatch_step E userId raw (acc, s))) =
       Some (serverTask\<lparr>t_sync_status := St_synced,
                         t_last_synced_at := Some (now_at E (Suc (clock_reads s))),
                         t_server_id := Some (q_task_id raw)\<rparr>)"
proof -
  have g: "getTaskByIdIncludingDeleted (q_task_id raw) userId
             (s\<lparr>clock_reads := Suc (clock_reads s)\<rparr>) = Inr (Some serverTask)"
    using assms(2,3,4) by (simp add: getTask_task_row)
  have nc: "q_operation raw \<noteq> ''create''"
    using assms(1) by auto
  have p: "processItem E raw (safeParseJSON E (q_data raw)) userId s =
       (Inr \<lparr>r_mapping = None, r_conflict = Some (q_task_id raw, serverTask),
             r_server_id = None\<rparr>, s\<lparr>clock_reads := Suc (clock_reads s)\<rparr>)"
    using assms(1,5) g nc by (simp add: processItem_def new_Date_def Let_def)
  have a: "fst (processBatch_step E userId raw (acc, s)) =
       acc\<lparr>conflicts := conflicts acc @ [(q_task_id raw, serverTask)],
           processed := processed acc + 1\<rparr>"
    by (simp add: processBatch_step_def p)
  have b: "task_row (q_task_id raw) userId (snd (processBatch_step E userId raw (acc, s))) =
       Some (serverTask\<lparr>t_sync_status := St_synced,
                         t_last_synced_at := Some (now_at E (Suc (clock_reads s))),
                         t_server_id := Some (q_task_id raw)\<rparr>)"
    using assms(4)
    by (simp add: processBatch_step_def p task_row_updateSyncStatus mark_def serverId_of_def)
  from p a b show ?thesis by simp
qed

lemma slices_single: "0 < n \<Longrightarrow> slices n [x] = [[x]]"
  by (subst slices.simps, simp) (subst slices.simps, simp)

lemma batch_size_pos: "0 < batch_size E"
  by (simp add: batch_size_def)

lemma resolveConflict_updated_at:
  assumes "t_updated_at l = t_updated_at l'" and "t_updated_at s = t_updated_at s'"
  shows "resolveConflict l s k = resolveConflict l' s' k"
  using assms by (simp add: resolveConflict_def)

lemma localTask_of_mark:
  "t_updated_at (localTask_of (mark st now sid t) data ident) =
   t_updated_at (localTask_of t data ident)"
  by (simp add: localTask_of_def mark_def split: option.splits)

lemma verify_own_checksum: "verifyBatchChecksum E batch (generateBatchChecksum E batch)"
  by (simp add: verifyBatchChecksum_def)

lemma task_row_sync_logs [simp]:
  "task_row i u (s\<lparr>sync_logs := l\<rparr>) = task_row i u s"
  by (simp add: task_row_def)

lemma sync_single_conflict:
  assumes q: "filter (\<lambda>r. q_user_id r = userId) (sync_queue s) = [raw]"
    and op: "q_operation raw = ''update'' \<or> q_operation raw = ''delete''"
    and ids: "q_task_id raw \<noteq> []" "userId \<noteq> []"
    and row: "task_row (q_task_id raw) userId s = Some serverTask"
    and win: "resolveConflict
           (localTask_of serverTask (safeParseJSON E (q_data raw)) (q_task_id raw))
           serverTask (q_operation raw) = ServerTask"
  shows "\<exists>res. fst (sync E [] last_synced_at userId syncId s) = Inr res \<and>
           sr_conflicts res =
             [(q_task_id raw,
               mark St_in_progress (now_at E (clock_reads s)) (q_task_id raw) serverTask)] \<and>
           sr_mappings res = [] \<and> sr_processed res = 1 \<and> sr_failed res = 0"
    and "task_row (q_task_id raw) userId (snd (sync E [] last_synced_at userId syncId s)) =
           Some (mark St_synced (now_at E (clock_reads s + 2)) (q_task_id raw) serverTask)"
proof -
  let ?tid = "q_task_id raw"
  let ?s1 = "updateSyncStatus E ?tid St_in_progress userId None s"
  let ?st1 = "mark St_in_progress (now_at E (clock_reads s)) ?tid serverTask"
  have d: "drain userId s = [raw]"
    by (simp add: drain_def q)
  have row1: "task_row ?tid userId ?s1 = Some ?st1"
    by (simp add: task_row_updateSyncStatus row serverId_of_def)
  have win1: "resolveConflict (localTask_of ?st1 (safeParseJSON E (q_data raw)) ?tid) ?st1
      (q_operation raw) = ServerTask"
    using win resolveConflict_updated_at
      [of "localTask_of ?st1 (safeParseJSON E (q_data raw)) ?tid"
          "localTask_of serverTask (safeParseJSON E (q_data raw)) ?tid" ?st1 serverTask]
    by (simp add: localTask_of_mark) (simp add: mark_def)
  have g: "getTaskByIdIncludingDeleted ?tid userId (?s1\<lparr>clock_reads := Suc (clock_reads ?s1)\<rparr>) =
      Inr (Some ?st1)"
    using ids row1 by (simp add: getTask_task_row)
  have nc: "q_operation raw \<noteq> ''create''"
    using op by auto
  have p: "processItem E raw (safeParseJSON E (q_data raw)) userId ?s1 =
       (Inr \<lparr>r_mapping = None, r_conflict = Some (?tid, ?st1), r_server_id = None\<rparr>,
        ?s1\<lparr>clock_reads := Suc (clock_reads ?s1)\<rparr>)"
    using op win1 g nc by (simp add: processItem_def new_Date_def Let_def)
  let ?s2 = "updateSyncStatus E ?tid St_synced userId None (?s1\<lparr>clock_reads := Suc (clock_reads ?s1)\<rparr>)"
  have pb: "processBatch E [raw] userId ?s1 =
      (\<lparr>mappings = [], conflicts = [(?tid, ?st1)], processed = 1, failed = 0\<rparr>, ?s2)"
    by (simp add: processBatch_def processBatch_step_def p no_result_def)
  have sl: "slices (batch_size E) (drain userId s) = [[raw]]"
    by (simp only: d slices_single [OF batch_size_pos])
  have sb: "fold (sync_batch E userId) (slices (batch_size E) (drain userId s)) (no_result, s) =
      (\<lparr>mappings = [], conflicts = [(?tid, ?st1)], processed = 1, failed = 0\<rparr>, ?s2)"
    unfolding sl
    by (simp add: sync_batch_def verify_own_checksum pb no_result_def)
  have row2: "task_row ?tid userId ?s2 =
      Some (mark St_synced (now_at E (clock_reads s + 2)) ?tid serverTask)"
    by (simp add: task_row_updateSyncStatus row serverId_of_def others_updateSyncStatus mark_def)
  show "\<exists>res. fst (sync E [] last_synced_at userId syncId s) = Inr res \<and>
           sr_conflicts res = [(?tid, ?st1)] \<and>
           sr_mappings res = [] \<and> sr_processed res = 1 \<and> sr_failed res = 0"
    by (simp add: sync_def sb Let_def split: prod.splits option.splits)
  show "task_row ?tid userId (snd (sync E [] last_synced_at userId syncId s)) =
           Some (mark St_synced (now_at E (clock_reads s + 2)) ?tid serverTask)"
    using row2
    by (simp add: sync_def sb Let_def uuidv4_def new_Date_def split: prod.splits option.splits)
qed

text \<open>
  C3 (as amended). When the server side wins the conflict resolution of an update or a
  delete, applying the operation writes nothing, a conflict report for the record is
  emitted and the operation is counted as processed. The status update that follows
  leaves title, description, completion flag, deletion flag, \<open>created_at\<close> and
  \<open>updated_at\<close> of the record as they were, and sets its \<open>sync_status\<close> to
  \<^verbatim>\<open>synced\<close>, its \<open>server_id\<close> to the target id and its \<open>last_synced_at\<close> to the time
  of the update. So it is after a sync whose queue holds this one operation of the owner.
\<close>

theorem server_win_leaves_data_fields:
  assumes "q_operation raw = ''update'' \<or> q_operation raw = ''delete''"
    and "q_task_id raw \<noteq> []" and "userId \<noteq> []"
    and "task_row (q_task_id raw) userId s = Some serverTask"
    and "resolveConflict
           (localTask_of serverTask (safeParseJSON E (q_data raw)) (q_task_id raw))
           serverTask (q_operation raw) = ServerTask"
  shows
    "processItem E raw (safeParseJSON E (q_data raw)) userId s =
       (Inr \<lparr>r_mapping = None, r_conflict = Some (q_task_id raw, serverTask),
             r_server_id = None\<rparr>, s\<lparr>clock_reads := Suc (clock_reads s)\<rparr>) \<and>
     fst (processBatch_step E userId raw (acc, s)) =
       acc\<lparr>conflicts := conflicts acc @ [(q_task_id raw, serverTask)],
           processed := processed acc + 1\<rparr> \<and>
     task_row (q_task_id raw) userId (snd (processBatch_step E userId raw (acc, s))) =
       Some (serverTask\<lparr>t_sync_status := St_synced,
                         t_last_synced_at := Some (now_at E (Suc (clock_reads s))),
                         t_server_id := Some (q_task_id raw)\<rparr>) \<and>
     (filter (\<lambda>r. q_user_id r = userId) (sync_queue s) = [raw] \<longrightarrow>
        (\<exists>res. fst (sync E [] last_synced_at userId syncId s) = Inr res \<and>
           map fst (sr_conflicts res) = [q_task_id raw] \<and>
           sr_mappings res = [] \<and> sr_processed res = 1 \<and> sr_failed res = 0) \<and>
        task_row (q_task_id raw) userId (snd (sync E [] last_synced_at userId syncId s)) =
          Some (serverTask\<lparr>t_sync_status := St_synced,
                            t_last_synced_at := Some (now_at E (clock_reads s + 2)),
                            t_server_id := Some (q_task_id raw)\<rparr>))"
proof (intro conjI impI)
  note step = conflict_step [OF assms, of acc]
  show "processItem E raw (safeParseJSON E (q_data raw)) userId s =
       (Inr \<lparr>r_mapping = None, r_conflict = Some (q_task_id raw, serverTask),
             r_server_id = None\<rparr>, s\<lparr>clock_reads := Suc (clock_reads s)\<rparr>)"
    using step by blast
  show "fst (processBatch_step E userId raw (acc, s)) =
       acc\<lparr>conflicts := conflicts acc @ [(q_task_id raw, serverTask)],
           processed := processed acc + 1\<rparr>"
    using step by blast
  show "task_row (q_task_id raw) userId (snd (processBatch_step E userId raw (acc, s))) =
       Some (serverTask\<lparr>t_sync_status := St_synced,
                         t_last_synced_at := Some (now_at E (Suc (clock_reads s))),
                         t_server_id := Some (q_task_id raw)\<rparr>)"
    using step by blast
next
  assume q: "filter (\<lambda>r. q_user_id r = userId) (sync_queue s) = [raw]"
  from sync_single_conflict(1) [OF q assms, of last_synced_at syncId]
  show "\<exists>res. fst (sync E [] last_synced_at userId syncId s) = Inr res \<and>
           map fst (sr_conflicts res) = [q_task_id raw] \<and>
           sr_mappings res = [] \<and> sr_processed res = 1 \<and> sr_failed res = 0"
    by auto
  from sync_single_conflict(2) [OF q assms, of last_synced_at syncId]
  show "task_row (q_task_id raw) userId (snd (sync E [] last_synced_at userId syncId s)) =
          Some (serverTask\<lparr>t_sync_status := St_synced,
                            t_last_synced_at := Some (now_at E (clock_reads s + 2)),
                            t_server_id := Some (q_task_id raw)\<rparr>)"
    by (simp add: mark_def)
qed

theorem server_win_leaves_data_fields_witness:
  "fst (processBatch_step ex_env ''U''
         (ex_row ''q1'' ''R'' ''update'' ''{title:C,updated_at:20}'' 20)
         (no_result, ex_world [ex_task]
            [ex_row ''q1'' ''R'' ''update'' ''{title:C,updated_at:20}'' 20])) =
     \<lparr>mappings = [], conflicts = [(''R'', ex_task)], processed = 1, failed = 0\<rparr> \<and>
   task_row ''R'' ''U'' (snd (processBatch_step ex_env ''U''
         (ex_row ''q1'' ''R'' ''update'' ''{title:C,updated_at:20}'' 20)
         (no_result, ex_world [ex_task]
            [ex_row ''q1'' ''R'' ''update'' ''{title:C,updated_at:20}'' 20]))) =
     Some (ex_task\<lparr>t_sync_status := St_synced, t_last_synced_at := Some 1001,
                    t_server_id := Some ''R''\<rparr>) \<and>
   task_row ''R'' ''U'' (snd (sync ex_env [] 0 ''U'' (Some ''S'')
         (ex_world [ex_task]
            [ex_row ''q1'' ''R'' ''update'' ''{title:C,updated_at:20}'' 20]))) =
     Some (ex_task\<lparr>t_sync_status := St_synced, t_last_synced_at := Some 1002,
                    t_server_id := Some ''R''\<rparr>)"
proof -
  let ?r = "ex_row ''q1'' ''R'' ''update'' ''{title:C,updated_at:20}'' 20"
  let ?w = "ex_world [ex_task] [?r]"
  have h: "q_operation ?r = ''update'' \<or> q_operation ?r = ''delete''"
    "q_task_id ?r \<noteq> []" "''U'' \<noteq> []" "task_row (q_task_id ?r) ''U'' ?w = Some ex_task"
    by (simp_all add: ex_row_def task_row_def ex_world_def ex_task_def)
  have c: "resolveConflict
      (localTask_of ex_task (safeParseJSON ex_env (q_data ?r)) (q_task_id ?r))
      ex_task (q_operation ?r) = ServerTask"
    by code_simp
  have q: "filter (\<lambda>r. q_user_id r = ''U'') (sync_queue ?w) = [?r]"
    by (simp add: ex_world_def ex_row_def)
  have v: "q_task_id ?r = ''R''" "now_at ex_env (Suc (clock_reads ?w)) = 1001"
    "now_at ex_env (clock_reads ?w + 2) = 1002"
    by (simp_all add: ex_row_def ex_env_def ex_world_def)
  note T = server_win_leaves_data_fields
    [OF h c, where acc = no_result and last_synced_at = 0 and syncId = "Some ''S''"]
  from T have a: "fst (processBatch_step ex_env ''U'' ?r (no_result, ?w)) =
      no_result\<lparr>conflicts := conflicts no_result @ [(q_task_id ?r, ex_task)],
                processed := processed no_result + 1\<rparr>"
    by blast
  from T have b: "task_row (q_task_id ?r) ''U''
      (snd (processBatch_step ex_env ''U'' ?r (no_result, ?w))) =
      Some (ex_task\<lparr>t_sync_status := St_synced,
                     t_last_synced_at := Some (now_at ex_env (Suc (clock_reads ?w))),
                     t_server_id := Some (q_task_id ?r)\<rparr>)"
    by blast
  from T q have d: "task_row (q_task_id ?r) ''U'' (snd (sync ex_env [] 0 ''U'' (Some ''S'') ?w)) =
      Some (ex_task\<lparr>t_sync_status := St_synced,
                     t_last_synced_at := Some (now_at ex_env (clock_reads ?w + 2)),
                     t_server_id := Some (q_task_id ?r)\<rparr>)"
    by blast
  show ?thesis
  proof (intro conjI)
    show "fst (processBatch_step ex_env ''U'' ?r (no_result, ?w)) =
      \<lparr>mappings = [], conflicts = [(''R'', ex_task)], processed = 1, failed = 0\<rparr>"
      by (simp only: a v) (simp add: no_result_def)
    show "task_row ''R'' ''U'' (snd (processBatch_step ex_env ''U'' ?r (no_result, ?w))) =
      Some (ex_task\<lparr>t_sync_status := St_synced, t_last_synced_at := Some 1001,
                     t_server_id := Some ''R''\<rparr>)"
      using b by (simp only: v)
    show "task_row ''R'' ''U'' (snd (sync ex_env [] 0 ''U'' (Some ''S'') ?w)) =
      Some (ex_task\<lparr>t_sync_status := St_synced, t_last_synced_at := Some 1002,
                     t_server_id := Some ''R''\<rparr>)"
      using d by (simp only: v)
  qed
qed

theorem server_win_changes_sync_fields:
  "map fst (sr_conflicts (projr (fst (sync ex_env [] 0 ''U'' (Some ''S'')
       (ex_world [ex_task] [ex_row ''q1'' ''R'' ''update'' ''{title:C,updated_at:20}'' 20]))))) =
     [''R''] \<and>
   task_row ''R'' ''U'' (ex_world [ex_task]
       [ex_row ''q1'' ''R'' ''update'' ''{title:C,updated_at:20}'' 20]) =
     Some \<lparr>t_id = ''R'', t_user_id = ''U'', t_title = ''T'', t_description = [],
       t_completed = False, t_created_at = 10, t_updated_at = 50, t_is_deleted = False,
       t_sync_status = St_pending, t_server_id = None, t_last_synced_at = None\<rparr> \<and>
   task_row ''R'' ''U'' (snd (sync ex_env [] 0 ''U'' (Some ''S'')
       (ex_world [ex_task] [ex_row ''q1'' ''R'' ''update'' ''{title:C,updated_at:20}'' 20]))) =
     Some \<lparr>t_id = ''R'', t_user_id = ''U'', t_title = ''T'', t_description = [],
       t_completed = False, t_created_at = 10, t_updated_at = 50, t_is_deleted = False,
       t_sync_status = St_synced, t_server_id = Some ''R'', t_last_synced_at = Some 1002\<rparr>"
  by code_simp

section \<open>Two operations on one record\<close>

text \<open>
  C1 (the code at a failing input). An update and a delete for the record \<open>R\<close> are
  queued with operation timestamps 100 and 200, the payloads carrying the same times, and
  the sync runs at time 1000. The operations are processed in that order; the update is
  applied and stamps the record with the time of the sync, and the delete, older than
  that stamp, loses the conflict resolution: the record is not deleted. The same happens
  when the two operations arrive as the changes of the sync request.
\<close>

theorem later_delete_is_discarded:
  "map (\<lambda>r. (q_operation r, q_operation_timestamp r))
     (drain ''U''
       (snd (addToSyncQueue ex_env (Some ''R'') ''delete'' (Some (pl None (Some 200))) ''U''
          (Some 200)
          (snd (addToSyncQueue ex_env (Some ''R'') ''update''
             (Some (pl (Some ''B'') (Some 100))) ''U'' (Some 100)
             (ex_world [ex_task] [])))))) = [(''update'', 100), (''delete'', 200)] \<and>
   map (\<lambda>t. (t_id t, t_title t, t_updated_at t, t_is_deleted t))
     (tasks (snd (sync ex_env [] 0 ''U'' (Some ''S'')
       (snd (addToSyncQueue ex_env (Some ''R'') ''delete'' (Some (pl None (Some 200))) ''U''
          (Some 200)
          (snd (addToSyncQueue ex_env (Some ''R'') ''update''
             (Some (pl (Some ''B'') (Some 100))) ''U'' (Some 100)
             (ex_world [ex_task] [])))))))) = [(''R'', ''B'', 1004, False)] \<and>
   map fst (sr_conflicts (projr (fst (sync ex_env [] 0 ''U'' (Some ''S'')
       (snd (addToSyncQueue ex_env (Some ''R'') ''delete'' (Some (pl None (Some 200))) ''U''
          (Some 200)
          (snd (addToSyncQueue ex_env (Some ''R'') ''update''
             (Some (pl (Some ''B'') (Some 100))) ''U'' (Some 100)
             (ex_world [ex_task] []))))))))) = [''R''] \<and>
   map (\<lambda>t. (t_id t, t_title t, t_updated_at t, t_is_deleted t))
     (tasks (snd (sync ex_env
        [ex_change ''update'' ''R'' (pl (Some ''B'') (Some 100)),
         ex_change ''delete'' ''R'' (pl None (Some 200))] 0 ''U'' (Some ''S'')
        (ex_world [ex_task] [])))) = [(''R'', ''B'', 1004, False)] \<and>
   map fst (sr_conflicts (projr (fst (sync ex_env
        [ex_change ''update'' ''R'' (pl (Some ''B'') (Some 100)),
         ex_change ''delete'' ''R'' (pl None (Some 200))] 0 ''U'' (Some ''S'')
        (ex_world [ex_task] []))))) = [''R'']"
  by code_simp

section \<open>Removing an applied operation\<close>

text \<open>
  C5 (the code at a failing input). The queue holds an update and a delete for the record
  \<open>R\<close>. After the update alone is applied the queue is empty: the delete, never
  attempted, is gone with it. In a whole sync, a create that failed and waits for its
  retry is lost in the same way when a later operation on its record succeeds.
\<close>

theorem removal_drops_every_row_of_the_record:
  "fst (processBatch_step ex_env ''U''
         (ex_row ''q1'' ''R'' ''update'' ''{title:B,updated_at:100}'' 100)
         (no_result, ex_world [ex_task]
            [ex_row ''q1'' ''R'' ''update'' ''{title:B,updated_at:100}'' 100,
             ex_row ''q2'' ''R'' ''delete'' ''{updated_at:200}'' 200])) =
     \<lparr>mappings = [], conflicts = [], processed = 1, failed = 0\<rparr> \<and>
   sync_queue (snd (processBatch_step ex_env ''U''
         (ex_row ''q1'' ''R'' ''update'' ''{title:B,updated_at:100}'' 100)
         (no_result, ex_world [ex_task]
            [ex_row ''q1'' ''R'' ''update'' ''{title:B,updated_at:100}'' 100,
             ex_row ''q2'' ''R'' ''delete'' ''{updated_at:200}'' 200]))) = [] \<and>
   (sr_processed (projr (fst (sync ex_env [] 0 ''U'' (Some ''S'')
       (ex_world [] [ex_row ''q1'' ''X'' ''create'' ''{}'' 100,
                     ex_row ''q2'' ''X'' ''create'' ''{title:A}'' 200])))),
    sr_failed (projr (fst (sync ex_env [] 0 ''U'' (Some ''S'')
       (ex_world [] [ex_row ''q1'' ''X'' ''create'' ''{}'' 100,
                     ex_row ''q2'' ''X'' ''create'' ''{title:A}'' 200]))))) = (1, 1) \<and>
   sync_queue (snd (sync ex_env [] 0 ''U'' (Some ''S'')
       (ex_world [] [ex_row ''q1'' ''X'' ''create'' ''{}'' 100,
                     ex_row ''q2'' ''X'' ''create'' ''{title:A}'' 200]))) = [] \<and>
   dead_letter_queue (snd (sync ex_env [] 0 ''U'' (Some ''S'')
       (ex_world [] [ex_row ''q1'' ''X'' ''create'' ''{}'' 100,
                     ex_row ''q2'' ''X'' ''create'' ''{title:A}'' 200]))) = []"
  by code_simp

section \<open>The fingerprint of a batch\<close>

subsection \<open>The serialisation can be read back\<close>













subsection \<open>Sorting by identifier\<close>
















end
